theory Spec2Isabelle
  imports Main "HOL-Library.Multiset"
begin

section \<open>Search suggestions of ckanext-discovery: the model of \<^verbatim>\<open>search_suggestions/model.py\<close>\<close>

text \<open>
  The module keeps one table, \<^verbatim>\<open>discovery_searchquery\<close>, with the columns \<^verbatim>\<open>id\<close> and
  \<^verbatim>\<open>q\<close>, and talks to PostgreSQL in three places: \<^verbatim>\<open>SearchQuery.create\<close> inserts a row,
  \<^verbatim>\<open>SearchQuery.suggest\<close> runs one nested \<^verbatim>\<open>SELECT\<close>, and \<^verbatim>\<open>create_tables\<close> creates the
  table and rebuilds the text-search index. The model passes the database explicitly and
  returns it from every operation; each error the driver can raise is a value.
\<close>

subsection \<open>Errors\<close>

text \<open>
  The module raises nothing itself. What reaches the caller are the exceptions of the
  driver: \<^verbatim>\<open>ProgrammingError\<close> (a relation or a text-search configuration that does not
  exist, a text-search query that does not parse), \<^verbatim>\<open>DataError\<close> (a \<^verbatim>\<open>LIMIT\<close> that is
  negative or no \<^verbatim>\<open>bigint\<close>, a key beyond the integer column) and \<^verbatim>\<open>IntegrityError\<close> (a
  key that is taken), each with the server's message; and the \<^verbatim>\<open>ValueError\<close> with which
  the driver itself refuses a string that holds a NUL character.
\<close>

datatype error =
  ProgrammingError string | DataError string | IntegrityError string | ValueError string

subsection \<open>Configuration\<close>

type_synonym config = "string \<rightharpoonup> string"

text \<open>
  Modelled from the spec: \<^verbatim>\<open>get_config\<close> of the package \<^verbatim>\<open>ckanext.discovery.plugins\<close> is
  imported by the module and is not among the sources. The docstring of
  \<^verbatim>\<open>_get_language\<close> fixes what it does here: the value of the setting
  \<^verbatim>\<open>ckanext.discovery.<key>\<close>, or the default if that option is not set.
\<close>

definition get_config :: "config \<Rightarrow> string \<Rightarrow> string \<Rightarrow> string" where
  "get_config config key dflt =
     (case config (''ckanext.discovery.'' @ key) of None \<Rightarrow> dflt | Some v \<Rightarrow> v)"

definition get_language :: "config \<Rightarrow> string" where
  "get_language config = get_config config ''search_suggestions.language'' ''english''"

subsection \<open>The text-search functions of the database\<close>

text \<open>
  \<^verbatim>\<open>to_tsvector\<close>, \<^verbatim>\<open>to_tsquery\<close>, the match operator \<^verbatim>\<open>@@\<close> and \<^verbatim>\<open>ts_rank\<close> belong to
  PostgreSQL, not to this repository, so they are a parameter of the model: any type of
  vectors \<open>'v\<close>, of parsed queries \<open>'q\<close> and of ranks \<open>'r\<close> (linearly ordered where ranks
  are compared). \<^verbatim>\<open>to_tsquery\<close> parses its text and can reject it; \<open>Inl\<close> carries the
  server's message. Two more things are the server's own. \<open>known_language\<close> says which
  text-search configurations it has. \<open>tie_order\<close> is its arrangement of result rows that
  \<^verbatim>\<open>ORDER BY\<close> does not tell apart: of two rows equal in rank and count the one with the
  smaller number comes first, and the numbers may change with the limit, as they do when
  the server sorts only as far as the limit needs.
\<close>

record ('v, 'q, 'r) text_search =
  known_language :: "string \<Rightarrow> bool"
  to_tsvector :: "string \<Rightarrow> string \<Rightarrow> 'v"
  to_tsquery :: "string \<Rightarrow> string \<Rightarrow> string + 'q"
  ts_match :: "'v \<Rightarrow> 'q \<Rightarrow> bool"
  ts_rank :: "'v \<Rightarrow> 'q \<Rightarrow> 'r"
  tie_order :: "int \<Rightarrow> string \<Rightarrow> nat"

subsection \<open>The table and the database\<close>

text \<open>
  The class \<^verbatim>\<open>SearchQuery\<close>: the primary key \<^verbatim>\<open>id\<close>, a column of type
  \<^verbatim>\<open>types.Integer\<close>, and the search string \<^verbatim>\<open>q\<close>.
\<close>

record SearchQuery =
  id' :: int
  q :: string

definition tablename :: string where
  "tablename = ''discovery_searchquery''"

text \<open>\<^verbatim>\<open>table + '_ts_index'\<close> in \<^verbatim>\<open>create_tables\<close>.\<close>

definition index_name :: string where
  "index_name = tablename @ ''_ts_index''"

text \<open>
  An index \<^verbatim>\<open>ON {table} USING GIN (to_tsvector(:language, q))\<close> is known by its table and
  its language.
\<close>

record index_def =
  on_table :: string
  using_language :: string

text \<open>
  The database: the rows of each table that exists, in insertion order, the indexes by
  name, and the last value of the sequence that numbers the rows of the table (0 before
  the first row). A table that has not been created is absent from \<open>tables\<close>.
\<close>

record database =
  tables :: "string \<rightharpoonup> SearchQuery list"
  indexes :: "string \<rightharpoonup> index_def"
  id_seq :: int

definition empty_database :: database where
  "empty_database = \<lparr>tables = Map.empty, indexes = Map.empty, id_seq = 0\<rparr>"

subsection \<open>The statement of \<^verbatim>\<open>suggest\<close>, stage by stage\<close>

text \<open>\<^verbatim>\<open>' | '.join(terms)\<close>: the terms as they are, with the separator between them.\<close>

fun join :: "string \<Rightarrow> string list \<Rightarrow> string" where
  "join sep [] = []"
| "join sep [x] = x"
| "join sep (x # y # ys) = x @ sep @ join sep (y # ys)"

definition terms_param :: "string list \<Rightarrow> string" where
  "terms_param terms = join '' | '' terms"

text \<open>
  The \<^verbatim>\<open>WHERE\<close> clause of the innermost subquery, for the text of one row, and the
  subquery itself, \<^verbatim>\<open>match\<close>:
  \<^verbatim>\<open>SELECT q, COUNT(q) AS count FROM {table}
  WHERE to_tsvector(:language, q) @@ to_tsquery(:language, :terms) GROUP BY q\<close>.
  One output row for each distinct \<^verbatim>\<open>q\<close> among the rows that pass the \<^verbatim>\<open>WHERE\<close>, with the
  number of those rows. SQL leaves the order of the groups open; the model lists them in
  the order \<open>remdups\<close> gives, and the ordering below rearranges them as the server does.
\<close>

definition text_matches :: "('v, 'q, 'r) text_search \<Rightarrow> string \<Rightarrow> 'q \<Rightarrow> string \<Rightarrow> bool" where
  "text_matches eng language query t \<longleftrightarrow> ts_match eng (to_tsvector eng language t) query"

definition match_rows ::
  "('v, 'q, 'r) text_search \<Rightarrow> string \<Rightarrow> 'q \<Rightarrow> SearchQuery list \<Rightarrow> (string \<times> nat) list" where
  "match_rows eng language query rows =
     (let hits = map q (filter (\<lambda>r. text_matches eng language query (q r)) rows)
      in map (\<lambda>t. (t, count_list hits t)) (remdups hits))"

text \<open>
  The select list of the middle query: \<^verbatim>\<open>match.q AS q\<close>,
  \<^verbatim>\<open>ts_rank(to_tsvector(:language, match.q), to_tsquery(:language, :terms)) AS rank\<close>,
  \<^verbatim>\<open>match.count AS count\<close>.
\<close>

definition rank_of :: "('v, 'q, 'r) text_search \<Rightarrow> string \<Rightarrow> 'q \<Rightarrow> string \<Rightarrow> 'r" where
  "rank_of eng language query t = ts_rank eng (to_tsvector eng language t) query"

definition ranked_rows ::
  "('v, 'q, 'r) text_search \<Rightarrow> string \<Rightarrow> 'q \<Rightarrow> (string \<times> nat) list \<Rightarrow> (string \<times> 'r \<times> nat) list" where
  "ranked_rows eng language query ms = map (\<lambda>(t, c). (t, rank_of eng language query t, c)) ms"

text \<open>
  \<^verbatim>\<open>ORDER BY rank DESC, count DESC\<close>: a row stands before another when its rank is
  greater, or the ranks are equal and its count is not smaller.
\<close>

definition row_before :: "string \<times> ('r::linorder) \<times> nat \<Rightarrow> string \<times> 'r \<times> nat \<Rightarrow> bool" where
  "row_before a b \<longleftrightarrow>
     fst (snd a) > fst (snd b) \<or> (fst (snd a) = fst (snd b) \<and> snd (snd a) \<ge> snd (snd b))"

text \<open>
  The order the server produces: that of the \<^verbatim>\<open>ORDER BY\<close> clause, and among rows equal in
  rank and count its own arrangement \<open>tie\<close>.
\<close>

definition row_precedes ::
  "(string \<Rightarrow> nat) \<Rightarrow> string \<times> ('r::linorder) \<times> nat \<Rightarrow> string \<times> 'r \<times> nat \<Rightarrow> bool" where
  "row_precedes tie a b \<longleftrightarrow>
     fst (snd a) > fst (snd b)
     \<or> (fst (snd a) = fst (snd b)
        \<and> (snd (snd a) > snd (snd b)
           \<or> (snd (snd a) = snd (snd b) \<and> tie (fst a) \<le> tie (fst b))))"

fun insert_row ::
  "(string \<Rightarrow> nat) \<Rightarrow> string \<times> ('r::linorder) \<times> nat \<Rightarrow> (string \<times> 'r \<times> nat) list
     \<Rightarrow> (string \<times> 'r \<times> nat) list" where
  "insert_row tie a [] = [a]"
| "insert_row tie a (b # bs) =
     (if row_precedes tie a b then a # b # bs else b # insert_row tie a bs)"

fun order_by_rank_count ::
  "(string \<Rightarrow> nat) \<Rightarrow> (string \<times> ('r::linorder) \<times> nat) list \<Rightarrow> (string \<times> 'r \<times> nat) list" where
  "order_by_rank_count tie [] = []"
| "order_by_rank_count tie (a # as) = insert_row tie a (order_by_rank_count tie as)"

text \<open>
  The middle query, \<^verbatim>\<open>sorted\<close>, as the server returns it when the statement is run with
  the given limit.
\<close>

definition sorted_rows ::
  "('v, 'q, 'r::linorder) text_search \<Rightarrow> string \<Rightarrow> 'q \<Rightarrow> int \<Rightarrow> SearchQuery list
     \<Rightarrow> (string \<times> 'r \<times> nat) list" where
  "sorted_rows eng language query limit rows =
     order_by_rank_count (tie_order eng limit)
       (ranked_rows eng language query (match_rows eng language query rows))"

text \<open>
  The outer query, \<^verbatim>\<open>SELECT * FROM (...) AS sorted WHERE rank >= :min_rank LIMIT :limit\<close>,
  for a limit that is a \<^verbatim>\<open>bigint\<close> and not negative. PostgreSQL scans the ordered subquery
  in its order, so the filter and the limit keep the order of \<open>sorted_rows\<close>.
\<close>

definition select_sorted ::
  "('r::linorder) \<Rightarrow> int \<Rightarrow> (string \<times> 'r \<times> nat) list \<Rightarrow> (string \<times> 'r \<times> nat) list" where
  "select_sorted min_rank limit srt =
     take (nat limit) (filter (\<lambda>row. fst (snd row) \<ge> min_rank) srt)"

subsection \<open>\<^verbatim>\<open>_execute\<close>\<close>

text \<open>
  \<^verbatim>\<open>_execute\<close> is given two statements by this module. \<open>Suggest_Select\<close> is the statement
  of \<^verbatim>\<open>suggest\<close> with its table and its bound parameters \<^verbatim>\<open>language\<close>, \<^verbatim>\<open>terms\<close>,
  \<^verbatim>\<open>limit\<close>, \<^verbatim>\<open>min_rank\<close>; \<open>Rebuild_Index\<close> is
  \<^verbatim>\<open>DROP INDEX IF EXISTS {index}; CREATE INDEX {index} ON {table} USING GIN (...)\<close> with
  index, table and language.
\<close>

datatype 'r statement =
  Suggest_Select string string string int 'r
| Rebuild_Index string string string

text \<open>
  The server checks the relation when it analyses the statement, evaluates the constant
  \<^verbatim>\<open>to_tsquery(:language, :terms)\<close> when it plans it, and then meets the limit: a
  negative one is refused with \<^verbatim>\<open>LIMIT must not be negative\<close>, one from \<open>2\<^sup>6\<^sup>3\<close> on with
  \<^verbatim>\<open>bigint out of range\<close>. A \<^verbatim>\<open>SELECT\<close> leaves the database as it is.

  The two statements of \<open>Rebuild_Index\<close> are sent as one and take effect together or not
  at all. \<^verbatim>\<open>CREATE INDEX\<close> needs the table and a text-search configuration the server
  has; where it fails, the index that \<^verbatim>\<open>DROP INDEX\<close> removed is back.
\<close>

fun execute ::
  "('v, 'q, 'r::linorder) text_search \<Rightarrow> 'r statement \<Rightarrow> database
     \<Rightarrow> (error + (string \<times> 'r \<times> nat) list) \<times> database" where
  "execute eng (Suggest_Select tbl language terms limit min_rank) db =
     (case tables db tbl of
        None \<Rightarrow> (Inl (ProgrammingError (''relation '' @ tbl @ '' does not exist'')), db)
      | Some rows \<Rightarrow>
          (case to_tsquery eng language terms of
             Inl msg \<Rightarrow> (Inl (ProgrammingError msg), db)
           | Inr query \<Rightarrow>
               if limit < 0 then (Inl (DataError ''LIMIT must not be negative''), db)
               else if limit > 9223372036854775807
               then (Inl (DataError ''bigint out of range''), db)
               else (Inr (select_sorted min_rank limit
                            (sorted_rows eng language query limit rows)), db)))"
| "execute eng (Rebuild_Index idx tbl language) db =
     (case tables db tbl of
        None \<Rightarrow> (Inl (ProgrammingError (''relation '' @ tbl @ '' does not exist'')), db)
      | Some rows \<Rightarrow>
          if known_language eng language
          then (Inr [], db\<lparr>indexes := ((indexes db)(idx := None))
                              (idx \<mapsto> \<lparr>on_table = tbl, using_language = language\<rparr>)\<rparr>)
          else (Inl (ProgrammingError
                  (''text search configuration '' @ language @ '' does not exist'')), db))"

subsection \<open>\<^verbatim>\<open>SearchQuery.create\<close>\<close>

text \<open>
  \<^verbatim>\<open>query = cls(q=q); Session.add(query); Session.commit(); return query\<close>: one row is
  inserted, and the instance is returned with the key the database gave it.

  The driver refuses a string with a NUL character before anything is sent. The server
  takes the key from the sequence of the table: the value after the last one. A sequence
  that has reached the end of the integer column gives no further key. A key that a row
  of the table already has is refused, and the sequence has moved on all the same.
\<close>

definition create :: "database \<Rightarrow> string \<Rightarrow> (error + SearchQuery) \<times> database" where
  "create db s =
     (if CHR 0x00 \<in> set s
      then (Inl (ValueError ''A string literal cannot contain NUL (0x00) characters.''), db)
      else
        (case tables db tablename of
           None \<Rightarrow> (Inl (ProgrammingError (''relation '' @ tablename @ '' does not exist'')), db)
         | Some rows \<Rightarrow>
             (let key = id_seq db + 1 in
              if key > 2147483647
              then (Inl (DataError ''nextval: reached maximum value of sequence''), db)
              else if key \<in> set (map id' rows)
              then (Inl (IntegrityError ''duplicate key value violates unique constraint''),
                    db\<lparr>id_seq := key\<rparr>)
              else (Inr \<lparr>id' = key, q = s\<rparr>,
                    db\<lparr>tables := (tables db)(tablename \<mapsto> rows @ [\<lparr>id' = key, q = s\<rparr>]),
                       id_seq := key\<rparr>))))"

subsection \<open>\<^verbatim>\<open>SearchQuery.suggest\<close>\<close>

text \<open>
  The statement is executed with \<^verbatim>\<open>language=_get_language()\<close>,
  \<^verbatim>\<open>terms=' | '.join(terms)\<close>, \<^verbatim>\<open>limit=limit\<close>, \<^verbatim>\<open>min_rank=min_score\<close>, and the first
  column of every result row is returned: \<^verbatim>\<open>[r[0] for r in results]\<close>.
\<close>

definition suggest ::
  "('v, 'q, 'r::linorder) text_search \<Rightarrow> config \<Rightarrow> database \<Rightarrow> string list \<Rightarrow> int \<Rightarrow> 'r
     \<Rightarrow> (error + string list) \<times> database" where
  "suggest eng config db terms limit min_score =
     (case execute eng
             (Suggest_Select tablename (get_language config) (terms_param terms) limit min_score) db of
        (Inl e, db') \<Rightarrow> (Inl e, db')
      | (Inr results, db') \<Rightarrow> (Inr (map fst results), db'))"

subsection \<open>\<^verbatim>\<open>create_tables\<close>\<close>

text \<open>
  \<^verbatim>\<open>Base.metadata.create_all(engine)\<close> creates the table of \<^verbatim>\<open>SearchQuery\<close>, and with it
  the sequence of its keys, unless the table exists. The index is rebuilt after that, in a
  statement of its own: when it fails, the table stays.
\<close>

definition create_all :: "database \<Rightarrow> database" where
  "create_all db =
     (case tables db tablename of
        None \<Rightarrow> db\<lparr>tables := (tables db)(tablename \<mapsto> []), id_seq := 0\<rparr>
      | Some rows \<Rightarrow> db)"

definition create_tables ::
  "('v, 'q, 'r::linorder) text_search \<Rightarrow> config \<Rightarrow> database \<Rightarrow> (error + unit) \<times> database" where
  "create_tables eng config db =
     (case execute eng (Rebuild_Index index_name tablename (get_language config)) (create_all db) of
        (Inl e, db') \<Rightarrow> (Inl e, db')
      | (Inr results, db') \<Rightarrow> (Inr (), db'))"

subsection \<open>Notions the properties are stated with\<close>

text \<open>
  The occurrence count of a text: the number of rows of the table that hold exactly this
  text.
\<close>

definition count_of :: "SearchQuery list \<Rightarrow> string \<Rightarrow> nat" where
  "count_of rows t = length (filter (\<lambda>r. q r = t) rows)"

text \<open>
  The order a list of suggestions is expected in: by rank, the greater first; at equal rank
  by occurrence count, the greater first.
\<close>

definition text_before ::
  "('v, 'q, 'r::linorder) text_search \<Rightarrow> string \<Rightarrow> 'q \<Rightarrow> SearchQuery list \<Rightarrow> string \<Rightarrow> string \<Rightarrow> bool" where
  "text_before eng language query rows a b \<longleftrightarrow>
     rank_of eng language query a > rank_of eng language query b
     \<or> (rank_of eng language query a = rank_of eng language query b
        \<and> count_of rows a \<ge> count_of rows b)"

text \<open>
  The states of the store: what the three operations of the module make of an empty
  database, in any order and under any configuration.
\<close>

inductive reachable :: "('v, 'q, 'r::linorder) text_search \<Rightarrow> database \<Rightarrow> bool" for eng where
  start: "reachable eng empty_database"
| after_create_tables: "reachable eng db \<Longrightarrow> reachable eng (snd (create_tables eng config db))"
| after_create: "reachable eng db \<Longrightarrow> reachable eng (snd (create db s))"
| after_suggest:
    "reachable eng db \<Longrightarrow> reachable eng (snd (suggest eng config db terms limit min_score))"

subsection \<open>A small instance to run the definitions on\<close>

text \<open>
  For concrete runs the parameter is filled with a very small text search. It has the
  configurations \<^verbatim>\<open>english\<close> and \<^verbatim>\<open>german\<close>. A vector is the list of the words of a text,
  split at blanks. A query is the list of the words of the query text other than the
  operator \<^verbatim>\<open>|\<close>, and a text with an opening parenthesis is rejected. A query word
  \<^verbatim>\<open>!w\<close> is the negation of \<^verbatim>\<open>w\<close>, as in PostgreSQL: a vector satisfies it when it does
  not hold \<^verbatim>\<open>w\<close>, and any other word when it holds the word. A vector matches a query when
  it satisfies one of its words, and the rank is the number of the words it satisfies.
  Rows equal in rank and count come as the table has them, but under a limit below 5 those
  with fewer letters \<^verbatim>\<open>a\<close> come first.
\<close>

fun words :: "string \<Rightarrow> string list" where
  "words [] = []"
| "words (c # cs) =
     (if c = CHR '' '' then words cs
      else (case words cs of
              [] \<Rightarrow> [[c]]
            | w # ws \<Rightarrow> if cs \<noteq> [] \<and> hd cs = CHR '' '' then [c] # w # ws else (c # w) # ws))"

fun satisfies :: "string list \<Rightarrow> string \<Rightarrow> bool" where
  "satisfies v [] = False"
| "satisfies v (c # w) = (if c = CHR ''!'' then w \<notin> set v else c # w \<in> set v)"

definition demo_engine :: "(string list, string list, nat) text_search" where
  "demo_engine =
     \<lparr>known_language = (\<lambda>language. language = ''english'' \<or> language = ''german''),
      to_tsvector = (\<lambda>language t. words t),
      to_tsquery = (\<lambda>language t.
         if CHR ''('' \<in> set t then Inl ''syntax error in tsquery''
         else Inr (filter (\<lambda>w. w \<noteq> ''|'') (words t))),
      ts_match = (\<lambda>v query. list_ex (satisfies v) query),
      ts_rank = (\<lambda>v query. length (filter (satisfies v) query)),
      tie_order = (\<lambda>limit t. if limit < 5 then length (filter (\<lambda>c. c = CHR ''a'') t) else 0)\<rparr>"

definition demo_rows :: "SearchQuery list" where
  "demo_rows =
     [\<lparr>id' = 1, q = ''cat dog''\<rparr>, \<lparr>id' = 2, q = ''cat fish''\<rparr>, \<lparr>id' = 3, q = ''cat dog''\<rparr>,
      \<lparr>id' = 4, q = ''dog wolf''\<rparr>, \<lparr>id' = 5, q = ''cat dog''\<rparr>, \<lparr>id' = 6, q = ''cat''\<rparr>,
      \<lparr>id' = 7, q = ''cat''\<rparr>]"

definition demo_database :: database where
  "demo_database = \<lparr>tables = [tablename \<mapsto> demo_rows], indexes = Map.empty, id_seq = 7\<rparr>"

text \<open>
  A second database, made by the module itself: the tables are created under the default
  configuration and one query is logged. And a configuration that sets the language.
\<close>

definition logged_database :: database where
  "logged_database = snd (create (snd (create_tables demo_engine Map.empty empty_database)) ''cat'')"

definition german_config :: config where
  "german_config = [''ckanext.discovery.search_suggestions.language'' \<mapsto> ''german'']"

section \<open>Lemmas\<close>

subsection \<open>The ordering of the rows\<close>

lemma set_insert_row: "set (insert_row tie a bs) = insert a (set bs)"
  by (induction bs) auto

lemma set_order_by_rank_count: "set (order_by_rank_count tie xs) = set xs"
  by (induction xs) (auto simp: set_insert_row)

lemma mset_insert_row: "mset (insert_row tie a bs) = add_mset a (mset bs)"
  by (induction bs) auto

lemma mset_order_by_rank_count: "mset (order_by_rank_count tie xs) = mset xs"
  by (induction xs) (auto simp: mset_insert_row)

lemma row_precedes_total: "\<not> row_precedes tie a b \<Longrightarrow> row_precedes tie b a"
  by (auto simp: row_precedes_def)

lemma row_precedes_trans:
  "row_precedes tie a b \<Longrightarrow> row_precedes tie b c \<Longrightarrow> row_precedes tie a c"
  by (auto simp: row_precedes_def)

lemma row_precedes_before: "row_precedes tie a b \<Longrightarrow> row_before a b"
  by (auto simp: row_precedes_def row_before_def)

lemma sorted_insert_row:
  "sorted_wrt (row_precedes tie) bs \<Longrightarrow> sorted_wrt (row_precedes tie) (insert_row tie a bs)"
proof (induction bs)
  case Nil
  then show ?case by simp
next
  case (Cons b bs)
  show ?case
  proof (cases "row_precedes tie a b")
    case True
    with Cons.prems show ?thesis by (auto intro: row_precedes_trans)
  next
    case False
    then have "row_precedes tie b a" by (rule row_precedes_total)
    with False Cons show ?thesis by (auto simp: set_insert_row)
  qed
qed

lemma sorted_order_by_rank_count: "sorted_wrt row_before (order_by_rank_count tie xs)"
proof -
  have "sorted_wrt (row_precedes tie) (order_by_rank_count tie xs)"
    by (induction xs) (auto intro: sorted_insert_row)
  then show ?thesis
    by (rule sorted_wrt_mono_rel[rotated]) (rule row_precedes_before)
qed

lemma distinct_insert_row:
  "distinct (map fst (insert_row tie a bs)) \<longleftrightarrow> fst a \<notin> fst ` set bs \<and> distinct (map fst bs)"
  by (induction bs) (auto simp: set_insert_row)

lemma distinct_order_by_rank_count:
  "distinct (map fst (order_by_rank_count tie xs)) \<longleftrightarrow> distinct (map fst xs)"
  by (induction xs) (auto simp: distinct_insert_row set_order_by_rank_count)

text \<open>
  Two lists in the order of the \<^verbatim>\<open>ORDER BY\<close> clause that hold the same rows show the same
  ranks and counts at the same places, whatever they do with rows equal in both.
\<close>

lemma sorted_wrt_mset_unique:
  assumes antisym: "\<And>a b. R a b \<Longrightarrow> R b a \<Longrightarrow> a = b"
    and "sorted_wrt R xs" and "sorted_wrt R ys" and "mset xs = mset ys"
  shows "xs = ys"
  using assms(2-)
proof (induction xs arbitrary: ys)
  case Nil
  then show ?case by simp
next
  case (Cons x xs)
  from Cons.prems(3) obtain y ys' where ys: "ys = y # ys'"
    by (cases ys) auto
  have "x \<in> set ys"
    using Cons.prems(3) by (metis list.set_intros(1) set_mset_mset)
  then have xy: "x = y \<or> R y x"
    using Cons.prems(2) ys by auto
  have "y \<in> set (x # xs)"
    using Cons.prems(3) ys by (metis list.set_intros(1) set_mset_mset)
  then have yx: "x = y \<or> R x y"
    using Cons.prems(1) by auto
  from xy yx have "x = y" using antisym by blast
  moreover from this Cons.prems ys have "xs = ys'"
    by (intro Cons.IH) simp_all
  ultimately show ?case by (simp add: ys)
qed

lemma sorted_keys_unique:
  assumes "sorted_wrt row_before xs" and "sorted_wrt row_before ys" and "mset xs = mset ys"
  shows "map snd xs = map snd ys"
proof -
  let ?R = "\<lambda>k l. fst k > fst l \<or> (fst k = fst l \<and> snd k \<ge> snd l)"
  have eq: "row_before = (\<lambda>x y. ?R (snd x) (snd y))"
    by (simp add: fun_eq_iff row_before_def)
  have "sorted_wrt ?R (map snd xs)" and "sorted_wrt ?R (map snd ys)"
    using assms(1,2)[unfolded eq] by (simp_all add: sorted_wrt_map)
  moreover have "mset (map snd xs) = mset (map snd ys)"
    using assms(3) by (metis mset_map)
  moreover have "a = b" if "?R a b" and "?R b a" for a b :: "'a \<times> nat"
    using that by (auto simp: prod_eq_iff)
  ultimately show ?thesis by (rule sorted_wrt_mset_unique[rotated])
qed

lemma count_list_hits:
  "count_list (map q (filter (\<lambda>r. P (q r)) rows)) t = (if P t then count_of rows t else 0)"
  by (induction rows) (auto simp: count_of_def)

lemma match_rows_iff:
  "(t, c) \<in> set (match_rows eng language query rows) \<longleftrightarrow>
     t \<in> q ` set rows \<and> text_matches eng language query t \<and> c = count_of rows t"
  by (auto simp: match_rows_def Let_def count_list_hits)

lemma distinct_match_rows: "distinct (map fst (match_rows eng language query rows))"
  by (simp add: match_rows_def Let_def comp_def)

lemma sorted_rows_iff:
  "(t, r, c) \<in> set (sorted_rows eng language query limit rows) \<longleftrightarrow>
     t \<in> q ` set rows \<and> text_matches eng language query t
     \<and> r = rank_of eng language query t \<and> c = count_of rows t"
  by (auto simp: sorted_rows_def set_order_by_rank_count ranked_rows_def match_rows_iff)

lemma sorted_rows_D:
  assumes "x \<in> set (sorted_rows eng language query limit rows)"
  shows "fst x \<in> q ` set rows" and "text_matches eng language query (fst x)"
    and "fst (snd x) = rank_of eng language query (fst x)"
    and "snd (snd x) = count_of rows (fst x)"
proof -
  obtain t r c where "x = (t, r, c)" by (rule prod_cases3)
  with assms have "(t, r, c) \<in> set (sorted_rows eng language query limit rows)" by simp
  then have "t \<in> q ` set rows \<and> text_matches eng language query t
     \<and> r = rank_of eng language query t \<and> c = count_of rows t"
    by (simp only: sorted_rows_iff)
  with \<open>x = (t, r, c)\<close> show "fst x \<in> q ` set rows" and "text_matches eng language query (fst x)"
    and "fst (snd x) = rank_of eng language query (fst x)"
    and "snd (snd x) = count_of rows (fst x)" by simp_all
qed

lemma distinct_sorted_rows: "distinct (map fst (sorted_rows eng language query limit rows))"
proof -
  have "map fst (ranked_rows eng language query ms) = map fst ms" for ms
    by (simp add: ranked_rows_def comp_def case_prod_unfold)
  then show ?thesis
    by (simp add: sorted_rows_def distinct_order_by_rank_count distinct_match_rows)
qed

lemma sorted_sorted_rows: "sorted_wrt row_before (sorted_rows eng language query limit rows)"
  by (simp add: sorted_rows_def sorted_order_by_rank_count)

lemma mset_sorted_rows:
  "mset (sorted_rows eng language query limit rows)
     = mset (sorted_rows eng language query limit' rows)"
  by (simp add: sorted_rows_def mset_order_by_rank_count)

subsection \<open>The result of \<^verbatim>\<open>suggest\<close>\<close>

lemma suggest_result:
  assumes "tables db tablename = Some rows"
    and "to_tsquery eng (get_language config) (terms_param terms) = Inr query"
  shows "suggest eng config db terms limit min_score =
           (if limit < 0 then Inl (DataError ''LIMIT must not be negative'')
            else if limit > 9223372036854775807 then Inl (DataError ''bigint out of range'')
            else Inr (map fst (select_sorted min_score limit
                                 (sorted_rows eng (get_language config) query limit rows))), db)"
  using assms by (simp add: suggest_def)

lemma suggest_Inr_D:
  assumes "suggest eng config db terms limit min_score = (Inr res, db')"
    and "tables db tablename = Some rows"
    and "to_tsquery eng (get_language config) (terms_param terms) = Inr query"
  shows "res = map fst (select_sorted min_score limit
                          (sorted_rows eng (get_language config) query limit rows))"
  using assms by (simp add: suggest_result split: if_splits)

lemma suggest_Inr_E:
  assumes "suggest eng config db terms limit min_score = (Inr res, db')"
  obtains rows query where "tables db tablename = Some rows"
    and "to_tsquery eng (get_language config) (terms_param terms) = Inr query"
    and "res = map fst (select_sorted min_score limit
                          (sorted_rows eng (get_language config) query limit rows))"
proof (cases "tables db tablename")
  case None
  with assms show ?thesis by (simp add: suggest_def)
next
  case (Some rows)
  show ?thesis
  proof (cases "to_tsquery eng (get_language config) (terms_param terms)")
    case (Inl msg)
    with Some assms show ?thesis by (simp add: suggest_def)
  next
    case (Inr query)
    from assms Some Inr
    have "res = map fst (select_sorted min_score limit
                           (sorted_rows eng (get_language config) query limit rows))"
      by (rule suggest_Inr_D)
    with Some Inr show ?thesis by (rule that)
  qed
qed

lemma set_select_sorted:
  "set (select_sorted min_rank limit srt) \<subseteq> {row \<in> set srt. min_rank \<le> fst (snd row)}"
  unfolding select_sorted_def using set_take_subset[of "nat limit"] by fastforce

lemma sorted_select_sorted:
  "sorted_wrt row_before srt \<Longrightarrow> sorted_wrt row_before (select_sorted min_rank limit srt)"
  by (simp add: select_sorted_def sorted_wrt_take sorted_wrt_filter)

lemma distinct_select_sorted:
  "distinct (map fst srt) \<Longrightarrow> distinct (map fst (select_sorted min_rank limit srt))"
  by (simp add: select_sorted_def distinct_map_filter take_map[symmetric] del: take_map)

text \<open>
  The rows of a result carry the rank and the count of their text, so the ranks and counts
  of a list of suggestions can be read off the rows it was taken from.
\<close>

lemma keys_of_select_sorted:
  "map (\<lambda>t. (rank_of eng language query t, count_of rows t))
     (map fst (select_sorted min_rank limit (sorted_rows eng language query limit' rows)))
   = map snd (select_sorted min_rank limit (sorted_rows eng language query limit' rows))"
proof -
  have "(rank_of eng language query (fst x), count_of rows (fst x)) = snd x"
    if "x \<in> set (select_sorted min_rank limit (sorted_rows eng language query limit' rows))" for x
  proof -
    from that set_select_sorted have "x \<in> set (sorted_rows eng language query limit' rows)"
      by blast
    then show ?thesis by (simp add: sorted_rows_D prod_eq_iff)
  qed
  then show ?thesis by (simp add: comp_def)
qed

text \<open>
  The ranks and counts that pass the filter, in order, do not depend on the limit the
  statement is run with.
\<close>

lemma filtered_keys_unique:
  "map snd (filter P (sorted_rows eng language query limit rows))
     = map snd (filter P (sorted_rows eng language query limit' rows))"
proof (rule sorted_keys_unique)
  show "sorted_wrt row_before (filter P (sorted_rows eng language query limit rows))"
    by (simp add: sorted_wrt_filter sorted_sorted_rows)
  show "sorted_wrt row_before (filter P (sorted_rows eng language query limit' rows))"
    by (simp add: sorted_wrt_filter sorted_sorted_rows)
  show "mset (filter P (sorted_rows eng language query limit rows))
          = mset (filter P (sorted_rows eng language query limit' rows))"
    using mset_sorted_rows[of eng language query limit rows limit'] by (metis mset_filter)
qed

text \<open>
  A list of suggestions taken from the sorted rows is in the order of rank and count, and
  holds only stored texts that match, each once.
\<close>

lemma suggestions_sorted:
  "sorted_wrt (text_before eng language query rows)
     (map fst (select_sorted min_rank limit (sorted_rows eng language query limit' rows)))"
proof -
  let ?srt = "sorted_rows eng language query limit' rows"
  let ?sel = "select_sorted min_rank limit ?srt"
  have sorted: "sorted_wrt row_before ?sel"
    by (rule sorted_select_sorted) (rule sorted_sorted_rows)
  have cols: "snd x = (rank_of eng language query (fst x), count_of rows (fst x))"
    if "x \<in> set ?sel" for x
  proof -
    from that set_select_sorted have "x \<in> set ?srt" by blast
    then show ?thesis by (simp add: sorted_rows_D prod_eq_iff)
  qed
  have "sorted_wrt (\<lambda>x y. text_before eng language query rows (fst x) (fst y)) ?sel"
  proof (rule sorted_wrt_mono_rel[OF _ sorted])
    fix x y
    assume "x \<in> set ?sel" "y \<in> set ?sel" "row_before x y"
    then show "text_before eng language query rows (fst x) (fst y)"
      using cols[of x] cols[of y] by (simp add: row_before_def text_before_def)
  qed
  then show ?thesis by (simp add: sorted_wrt_map)
qed

lemma suggestions_stored:
  assumes "t \<in> set (map fst (select_sorted min_rank limit
                              (sorted_rows eng language query limit' rows)))"
  shows "\<exists>r \<in> set rows. q r = t \<and> text_matches eng language query (q r)"
proof -
  let ?srt = "sorted_rows eng language query limit' rows"
  from assms obtain x where "x \<in> set (select_sorted min_rank limit ?srt)" and "t = fst x"
    by auto
  with set_select_sorted have "x \<in> set ?srt" by blast
  from sorted_rows_D(1,2)[OF this] \<open>t = fst x\<close> show ?thesis by auto
qed

lemma suggestions_distinct:
  "distinct (map fst (select_sorted min_rank limit (sorted_rows eng language query limit' rows)))"
  by (rule distinct_select_sorted) (rule distinct_sorted_rows)

subsection \<open>The statement text\<close>

lemma join_contains: "t \<in> set terms \<Longrightarrow> \<exists>pre post. join sep terms = pre @ t @ post"
proof (induction sep terms rule: join.induct)
  case (1 sep)
  then show ?case by simp
next
  case (2 sep x)
  then have "join sep [x] = [] @ t @ []" by simp
  then show ?case by blast
next
  case (3 sep x y ys)
  show ?case
  proof (cases "t = x")
    case True
    then have "join sep (x # y # ys) = [] @ t @ (sep @ join sep (y # ys))" by simp
    then show ?thesis by blast
  next
    case False
    with 3 obtain pre post where "join sep (y # ys) = pre @ t @ post" by auto
    then have "join sep (x # y # ys) = (x @ sep @ pre) @ t @ post" by simp
    then show ?thesis by blast
  qed
qed

subsection \<open>Creating tables and rows\<close>

lemma create_all_table:
  "tables (create_all db) tablename = Some (case tables db tablename of None \<Rightarrow> [] | Some rows \<Rightarrow> rows)"
  by (simp add: create_all_def split: option.split)

lemma create_all_indexes: "indexes (create_all db) = indexes db"
  by (simp add: create_all_def split: option.split)

lemma create_all_idem: "tables db tablename = Some rows \<Longrightarrow> create_all db = db"
  by (simp add: create_all_def)

lemma create_tables_result:
  "create_tables eng config db =
     (if known_language eng (get_language config)
      then (Inr (), (create_all db)\<lparr>indexes := (indexes db)
              (index_name \<mapsto> \<lparr>on_table = tablename, using_language = get_language config\<rparr>)\<rparr>)
      else (Inl (ProgrammingError
              (''text search configuration '' @ get_language config @ '' does not exist'')),
            create_all db))"
  by (simp add: create_tables_def create_all_table create_all_indexes)

lemma create_indexes: "indexes (snd (create db s)) = indexes db"
  by (simp add: create_def Let_def split: option.split)

lemma suggest_state: "snd (suggest eng config db terms limit min_score) = db"
  by (simp add: suggest_def split: option.split sum.split)

lemma create_result:
  assumes "tables db tablename = Some rows" and "CHR 0x00 \<notin> set s"
    and "id_seq db + 1 \<le> 2147483647" and "id_seq db + 1 \<notin> id' ` set rows"
  shows "create db s = (Inr \<lparr>id' = id_seq db + 1, q = s\<rparr>,
           db\<lparr>tables := (tables db)(tablename \<mapsto> rows @ [\<lparr>id' = id_seq db + 1, q = s\<rparr>]),
              id_seq := id_seq db + 1\<rparr>)"
  using assms by (simp add: create_def Let_def)

text \<open>
  In the states of the store there is no index but the one of the module, and every key
  came from the sequence.
\<close>

lemma reachable_indexes: "reachable eng db \<Longrightarrow> dom (indexes db) \<subseteq> {index_name}"
proof (induction rule: reachable.induct)
  case start
  then show ?case by (simp add: empty_database_def)
next
  case (after_create_tables db config)
  then show ?case
    by (auto simp: create_tables_result create_all_indexes subset_iff dom_def split: if_splits)
next
  case (after_create db s)
  then show ?case by (simp add: create_indexes)
next
  case (after_suggest db config terms limit min_score)
  then show ?case by (simp add: suggest_state)
qed

lemma reachable_keys:
  "reachable eng db \<Longrightarrow> tables db tablename = Some rows \<Longrightarrow> \<forall>r \<in> set rows. id' r \<le> id_seq db"
proof (induction arbitrary: rows rule: reachable.induct)
  case start
  then show ?case by (simp add: empty_database_def)
next
  case (after_create_tables db config)
  then show ?case
    by (cases "tables db tablename")
       (auto simp: create_tables_result create_all_def split: if_splits)
next
  case (after_create db s)
  then show ?case
    by (fastforce simp: create_def Let_def split: if_splits option.splits)
next
  case (after_suggest db config terms limit min_score)
  then show ?case by (simp add: suggest_state)
qed

subsection \<open>The small instance\<close>

lemmas demo_defs = suggest_def demo_engine_def demo_database_def demo_rows_def get_language_def
  get_config_def terms_param_def tablename_def select_sorted_def sorted_rows_def ranked_rows_def
  match_rows_def rank_of_def text_matches_def row_precedes_def

lemma demo_table: "tables demo_database tablename = Some demo_rows"
  by (simp add: demo_database_def)

lemma demo_query_cat_fish:
  "to_tsquery demo_engine (get_language Map.empty) (terms_param [''cat'', ''fish'']) = Inr [''cat'', ''fish'']"
  by (simp add: demo_engine_def terms_param_def)

lemma demo_suggest_cat_fish:
  "suggest demo_engine Map.empty demo_database [''cat'', ''fish''] 10 0
     = (Inr [''cat fish'', ''cat dog'', ''cat''], demo_database)"
  by (simp add: demo_defs)

lemma demo_suggest_cat_fish_min:
  "suggest demo_engine Map.empty demo_database [''cat'', ''fish''] 10 2
     = (Inr [''cat fish''], demo_database)"
  by (simp add: demo_defs)

lemma logged_database_eq:
  "logged_database =
     \<lparr>tables = [tablename \<mapsto> [\<lparr>id' = 1, q = ''cat''\<rparr>]],
      indexes = [index_name \<mapsto> \<lparr>on_table = tablename, using_language = ''english''\<rparr>],
      id_seq = 1\<rparr>"
  by (simp add: logged_database_def create_tables_result create_all_def create_def
      empty_database_def get_language_def get_config_def demo_engine_def)

lemma logged_database_reachable: "reachable demo_engine logged_database"
  unfolding logged_database_def
  by (intro reachable.after_create reachable.after_create_tables reachable.start)

section \<open>The properties\<close>

subsection \<open>The order of the suggestions\<close>

text \<open>
  C1. Whatever the rows of the table, the terms, the limit and the minimal score: a list
  that \<^verbatim>\<open>suggest\<close> returns is in descending order of rank, and of two entries of equal
  rank the one with the greater occurrence count comes first. Rank and count are those of
  the statement: the rank of an entry against the query parsed from the joined terms, the
  count of the rows that hold the entry's text.
\<close>

theorem suggest_sorted_by_rank_then_count:
  assumes "suggest eng config db terms limit min_score = (Inr res, db')"
  shows "\<exists>rows query. tables db tablename = Some rows
    \<and> to_tsquery eng (get_language config) (terms_param terms) = Inr query
    \<and> sorted_wrt (text_before eng (get_language config) query rows) res"
proof -
  from assms obtain rows query where rows: "tables db tablename = Some rows"
    and query: "to_tsquery eng (get_language config) (terms_param terms) = Inr query"
    and res: "res = map fst (select_sorted min_score limit
                               (sorted_rows eng (get_language config) query limit rows))"
    by (rule suggest_Inr_E)
  have "sorted_wrt (text_before eng (get_language config) query rows) res"
    unfolding res by (rule suggestions_sorted)
  with rows query show ?thesis by blast
qed

text \<open>
  On the small instance, for the terms \<^verbatim>\<open>cat\<close> and \<^verbatim>\<open>fish\<close>: \<^verbatim>\<open>cat fish\<close> has rank 2;
  \<^verbatim>\<open>cat dog\<close> and \<^verbatim>\<open>cat\<close> have rank 1 and are told apart by their counts, 3 and 2.
\<close>

theorem suggest_sorted_by_rank_then_count_witness:
  "suggest demo_engine Map.empty demo_database [''cat'', ''fish''] 10 0
     = (Inr [''cat fish'', ''cat dog'', ''cat''], demo_database)
   \<and> sorted_wrt (text_before demo_engine (get_language Map.empty) [''cat'', ''fish''] demo_rows)
        [''cat fish'', ''cat dog'', ''cat'']"
proof -
  from suggest_sorted_by_rank_then_count [OF demo_suggest_cat_fish]
  obtain rows query where "tables demo_database tablename = Some rows"
    and "to_tsquery demo_engine (get_language Map.empty) (terms_param [''cat'', ''fish'']) = Inr query"
    and "sorted_wrt (text_before demo_engine (get_language Map.empty) query rows)
           [''cat fish'', ''cat dog'', ''cat'']"
    by blast
  with demo_table demo_query_cat_fish demo_suggest_cat_fish show ?thesis by simp
qed

subsection \<open>What is suggested\<close>

text \<open>
  C2. The claim, and the comment in \<^verbatim>\<open>suggest\<close> that the statement "first finds the rows
  that contain at least one of the terms", is that every suggestion holds one of the
  terms. The code does not keep to it. The one term \<^verbatim>\<open>!wolf\<close> is handed to
  \<^verbatim>\<open>to_tsquery\<close> as it is and read as the negation of \<^verbatim>\<open>wolf\<close>: what \<^verbatim>\<open>suggest\<close>
  returns are the texts without \<^verbatim>\<open>wolf\<close>, none of which holds the term, and the one text
  with \<^verbatim>\<open>wolf\<close> is left out.
\<close>

theorem suggest_negated_term_returns_texts_without_it:
  "suggest demo_engine Map.empty demo_database [''!wolf''] 10 0
     = (Inr [''cat dog'', ''cat'', ''cat fish''], demo_database)
   \<and> terms_param [''!wolf''] = ''!wolf''
   \<and> to_tsvector demo_engine (get_language Map.empty) ''cat dog'' = [''cat'', ''dog'']
   \<and> to_tsvector demo_engine (get_language Map.empty) ''cat'' = [''cat'']
   \<and> to_tsvector demo_engine (get_language Map.empty) ''cat fish'' = [''cat'', ''fish'']
   \<and> ''dog wolf'' \<in> q ` set demo_rows"
  by (simp add: demo_defs)

subsection \<open>The minimal score\<close>

text \<open>
  C3. With a minimal score \<open>min_score\<close>, no entry of the returned list has a rank below
  it; a rank equal to it is allowed.
\<close>

theorem suggest_min_score:
  assumes "suggest eng config db terms limit min_score = (Inr res, db')"
  shows "\<exists>query. to_tsquery eng (get_language config) (terms_param terms) = Inr query
    \<and> (\<forall>t \<in> set res. min_score \<le> rank_of eng (get_language config) query t)"
proof -
  from assms obtain rows query where rows: "tables db tablename = Some rows"
    and query: "to_tsquery eng (get_language config) (terms_param terms) = Inr query"
    and res: "res = map fst (select_sorted min_score limit
                               (sorted_rows eng (get_language config) query limit rows))"
    by (rule suggest_Inr_E)
  let ?srt = "sorted_rows eng (get_language config) query limit rows"
  let ?sel = "select_sorted min_score limit ?srt"
  have "min_score \<le> rank_of eng (get_language config) query t" if "t \<in> set res" for t
  proof -
    from that res obtain x where x: "x \<in> set ?sel" and t: "t = fst x" by auto
    from x set_select_sorted have "x \<in> set ?srt" and least: "min_score \<le> fst (snd x)" by blast+
    then have "fst (snd x) = rank_of eng (get_language config) query t"
      by (simp add: sorted_rows_D t)
    with least show ?thesis by simp
  qed
  with query show ?thesis by blast
qed

theorem suggest_min_score_witness:
  "suggest demo_engine Map.empty demo_database [''cat'', ''fish''] 10 2
     = (Inr [''cat fish''], demo_database)
   \<and> (2::nat) \<le> rank_of demo_engine (get_language Map.empty) [''cat'', ''fish''] ''cat fish''"
proof -
  from suggest_min_score [OF demo_suggest_cat_fish_min]
  obtain query where "to_tsquery demo_engine (get_language Map.empty) (terms_param [''cat'', ''fish'']) = Inr query"
    and "\<forall>t \<in> set [''cat fish'']. (2::nat) \<le> rank_of demo_engine (get_language Map.empty) query t"
    by blast
  with demo_query_cat_fish demo_suggest_cat_fish_min show ?thesis by simp
qed

subsection \<open>The limit\<close>

text \<open>
  The claim gives a list for every limit \<open>N \<ge> 0\<close> and every list of terms, the empty
  list for \<open>N = 0\<close>. Two calls that raise instead: limit 0 with a term the database does
  not parse, and the limit \<open>2\<^sup>6\<^sup>3\<close>, which is no \<^verbatim>\<open>bigint\<close>.
\<close>

theorem suggest_limit_counterexample:
  "suggest demo_engine Map.empty demo_database [''(cat''] 0 0
     = (Inl (ProgrammingError ''syntax error in tsquery''), demo_database)
   \<and> suggest demo_engine Map.empty demo_database [''cat''] 9223372036854775808 0
     = (Inl (DataError ''bigint out of range''), demo_database)"
  by (simp add: demo_defs)

text \<open>
  C4, as the code has it. On a table that exists, for terms whose joined text the database
  parses and for a limit \<open>N\<close> with \<open>0 \<le> N < 2\<^sup>6\<^sup>3\<close>, \<^verbatim>\<open>suggest\<close> returns a list of at most
  \<open>N\<close> entries, the empty list for \<open>N = 0\<close>. The list is in the order of rank and count,
  and its ranks and counts are, place by place, those of the first \<open>N\<close> entries of the
  list for any greater limit. Which of several texts equal in rank and count are returned,
  and in which order, is the server's choice and can differ from one limit to the other.
\<close>

theorem suggest_limit:
  assumes "tables db tablename = Some rows"
    and "to_tsquery eng (get_language config) (terms_param terms) = Inr query"
    and "0 \<le> limit" and "limit \<le> 9223372036854775807"
  shows "\<exists>res. suggest eng config db terms limit min_score = (Inr res, db)
           \<and> length res \<le> nat limit
           \<and> (limit = 0 \<longrightarrow> res = [])
           \<and> sorted_wrt (text_before eng (get_language config) query rows) res
           \<and> (\<forall>limit'. limit \<le> limit' \<and> limit' \<le> 9223372036854775807 \<longrightarrow>
                (\<exists>res'. suggest eng config db terms limit' min_score = (Inr res', db)
                   \<and> map (\<lambda>t. (rank_of eng (get_language config) query t, count_of rows t)) res
                     = take (nat limit)
                         (map (\<lambda>t. (rank_of eng (get_language config) query t, count_of rows t))
                            res')))"
proof -
  let ?lang = "get_language config"
  let ?key = "\<lambda>t. (rank_of eng ?lang query t, count_of rows t)"
  let ?P = "\<lambda>row. min_score \<le> fst (snd row)"
  let ?res = "\<lambda>n. map fst (select_sorted min_score n (sorted_rows eng ?lang query n rows))"
  have result: "suggest eng config db terms n min_score = (Inr (?res n), db)"
    if "0 \<le> n" and "n \<le> 9223372036854775807" for n
    using assms(1,2) that by (simp add: suggest_result)
  have keys: "map ?key (?res n) = take (nat n) (map snd (filter ?P (sorted_rows eng ?lang query limit rows)))"
    for n
  proof -
    have "map ?key (?res n) = map snd (select_sorted min_score n (sorted_rows eng ?lang query n rows))"
      by (rule keys_of_select_sorted)
    also have "\<dots> = take (nat n) (map snd (filter ?P (sorted_rows eng ?lang query n rows)))"
      by (simp add: select_sorted_def take_map)
    also have "\<dots> = take (nat n) (map snd (filter ?P (sorted_rows eng ?lang query limit rows)))"
      by (simp only: filtered_keys_unique[of ?P eng ?lang query n rows limit])
    finally show ?thesis .
  qed
  have "length (?res limit) \<le> nat limit"
    by (simp add: select_sorted_def)
  moreover have "limit = 0 \<longrightarrow> ?res limit = []"
    by (simp add: select_sorted_def)
  moreover have "sorted_wrt (text_before eng ?lang query rows) (?res limit)"
    by (rule suggestions_sorted)
  moreover have "\<exists>res'. suggest eng config db terms limit' min_score = (Inr res', db)
                   \<and> map ?key (?res limit) = take (nat limit) (map ?key res')"
    if "limit \<le> limit' \<and> limit' \<le> 9223372036854775807" for limit'
  proof -
    from that assms(3) have "0 \<le> limit'" and "limit' \<le> 9223372036854775807" by simp_all
    then have "suggest eng config db terms limit' min_score = (Inr (?res limit'), db)"
      by (rule result)
    moreover from that have "nat limit \<le> nat limit'"
      by (intro nat_mono) simp
    then have "min (nat limit) (nat limit') = nat limit"
      by (rule min_absorb1)
    then have "map ?key (?res limit) = take (nat limit) (map ?key (?res limit'))"
      by (simp only: keys take_take)
    ultimately show ?thesis by blast
  qed
  ultimately show ?thesis
    using result[OF assms(3,4)] by blast
qed

text \<open>
  On the small instance the terms \<^verbatim>\<open>fish\<close> and \<^verbatim>\<open>wolf\<close> find two texts equal in rank and
  count. With limit 1 the server returns \<^verbatim>\<open>dog wolf\<close>, with limit 10 it puts \<^verbatim>\<open>cat fish\<close>
  first: the shorter list is no beginning of the longer one, but rank and count at its one
  place are those of the first place of the longer list.
\<close>

theorem suggest_limit_witness:
  "suggest demo_engine Map.empty demo_database [''fish'', ''wolf''] 1 0
     = (Inr [''dog wolf''], demo_database)
   \<and> suggest demo_engine Map.empty demo_database [''fish'', ''wolf''] 10 0
     = (Inr [''cat fish'', ''dog wolf''], demo_database)
   \<and> suggest demo_engine Map.empty demo_database [''fish'', ''wolf''] 0 0 = (Inr [], demo_database)
   \<and> (rank_of demo_engine (get_language Map.empty) [''fish'', ''wolf''] ''dog wolf'',
       count_of demo_rows ''dog wolf'')
     = (rank_of demo_engine (get_language Map.empty) [''fish'', ''wolf''] ''cat fish'',
        count_of demo_rows ''cat fish'')"
proof -
  let ?key = "\<lambda>t. (rank_of demo_engine (get_language Map.empty) [''fish'', ''wolf''] t,
                    count_of demo_rows t)"
  have parse: "to_tsquery demo_engine (get_language Map.empty) (terms_param [''fish'', ''wolf''])
                 = Inr [''fish'', ''wolf'']"
    by (simp add: demo_engine_def terms_param_def)
  have one: "suggest demo_engine Map.empty demo_database [''fish'', ''wolf''] 1 0
               = (Inr [''dog wolf''], demo_database)"
    by (simp add: demo_defs)
  have ten: "suggest demo_engine Map.empty demo_database [''fish'', ''wolf''] 10 0
               = (Inr [''cat fish'', ''dog wolf''], demo_database)"
    by (simp add: demo_defs)
  have "(0::int) \<le> 0" and "(0::int) \<le> 9223372036854775807" by simp_all
  from suggest_limit [OF demo_table parse this, where min_score = "0::nat"]
  have zero: "suggest demo_engine Map.empty demo_database [''fish'', ''wolf''] 0 0
                = (Inr [], demo_database)"
    by blast
  have "(0::int) \<le> 1" and "(1::int) \<le> 9223372036854775807" by simp_all
  from suggest_limit [OF demo_table parse this, where min_score = "0::nat"]
  obtain res where res: "suggest demo_engine Map.empty demo_database [''fish'', ''wolf''] 1 0
                           = (Inr res, demo_database)"
    and pre: "\<forall>limit'. 1 \<le> limit' \<and> limit' \<le> 9223372036854775807 \<longrightarrow>
                (\<exists>res'. suggest demo_engine Map.empty demo_database [''fish'', ''wolf''] limit' 0
                           = (Inr res', demo_database)
                   \<and> map ?key res = take (nat 1) (map ?key res'))"
    by blast
  from res one have "res = [''dog wolf'']" by simp
  moreover from pre have "\<exists>res'. suggest demo_engine Map.empty demo_database [''fish'', ''wolf''] 10 0
                           = (Inr res', demo_database)
                   \<and> map ?key res = take (nat 1) (map ?key res')"
    by simp
  ultimately have "map ?key [''dog wolf''] = take (nat 1) (map ?key [''cat fish'', ''dog wolf''])"
    using ten by simp
  then have "?key ''dog wolf'' = ?key ''cat fish''" by simp
  with one ten zero show ?thesis by simp
qed

subsection \<open>No terms\<close>

text \<open>
  C5. With no terms the joined text is empty. PostgreSQL parses the empty text (with a
  notice) to a query that matches no row, and that is what is asked of the parameter here.
  Then \<^verbatim>\<open>suggest\<close> on an existing table returns the empty list and raises nothing,
  whatever rows the table holds, for every limit the server takes; a limit that is
  negative or no \<^verbatim>\<open>bigint\<close> is refused as it is with any terms.
\<close>

theorem suggest_empty_terms:
  assumes "tables db tablename = Some rows"
    and "to_tsquery eng (get_language config) [] = Inr query"
    and "\<forall>v. \<not> ts_match eng v query"
  shows "suggest eng config db [] limit min_score =
           (if limit < 0 then Inl (DataError ''LIMIT must not be negative'')
            else if limit > 9223372036854775807 then Inl (DataError ''bigint out of range'')
            else Inr [], db)"
proof -
  have "terms_param [] = []" by (simp add: terms_param_def)
  moreover have "sorted_rows eng (get_language config) query limit rows = []"
    using assms(3) by (simp add: sorted_rows_def ranked_rows_def match_rows_def text_matches_def)
  ultimately show ?thesis
    using assms by (simp add: suggest_result[where query = query] select_sorted_def)
qed

theorem suggest_empty_terms_witness:
  "to_tsquery demo_engine (get_language Map.empty) [] = Inr []
   \<and> suggest demo_engine Map.empty demo_database [] 10 0 = (Inr [], demo_database)"
proof -
  have parse: "to_tsquery demo_engine (get_language Map.empty) [] = Inr []"
    by (simp add: demo_engine_def)
  have none: "\<forall>v. \<not> ts_match demo_engine v []"
    by (simp add: demo_engine_def)
  from suggest_empty_terms [OF demo_table parse none, of 10 0] parse show ?thesis by simp
qed

subsection \<open>Terms with text-search syntax\<close>

text \<open>
  The terms are not escaped. The single term \<^verbatim>\<open>cat | dog\<close> gives the same query text as
  the two terms \<^verbatim>\<open>cat\<close> and \<^verbatim>\<open>dog\<close>, so its \<^verbatim>\<open>|\<close> works as the operator; and the
  operators of the term \<^verbatim>\<open>cat & !dog\<close> arrive in the query text as they were written.
\<close>

theorem terms_param_not_escaped_counterexample:
  "terms_param [''cat | dog''] = terms_param [''cat'', ''dog'']
   \<and> terms_param [''cat & !dog''] = ''cat & !dog''"
  by (simp add: terms_param_def)

text \<open>
  C6, as the code has it. \<^verbatim>\<open>suggest\<close> escapes nothing: each term stands unchanged in the
  text handed to \<^verbatim>\<open>to_tsquery\<close>; the terms act on the result through that text alone, so
  two lists of terms with the same joined text give the same result; and when
  \<^verbatim>\<open>to_tsquery\<close> rejects the text, \<^verbatim>\<open>suggest\<close> fails with the driver's
  \<^verbatim>\<open>ProgrammingError\<close> and the database is as before. The text is a bound parameter of
  the statement, so it is the text-search query that a term can alter, not the statement.
\<close>

theorem suggest_passes_terms_verbatim:
  "(\<forall>t \<in> set terms. \<exists>pre post. terms_param terms = pre @ t @ post)
   \<and> (terms_param terms = terms_param terms' \<longrightarrow>
        suggest eng config db terms limit min_score = suggest eng config db terms' limit min_score)
   \<and> (tables db tablename = Some rows \<longrightarrow>
        to_tsquery eng (get_language config) (terms_param terms) = Inl msg \<longrightarrow>
        suggest eng config db terms limit min_score = (Inl (ProgrammingError msg), db))"
proof (intro conjI ballI impI)
  fix t
  assume "t \<in> set terms"
  then show "\<exists>pre post. terms_param terms = pre @ t @ post"
    unfolding terms_param_def by (rule join_contains)
next
  assume "terms_param terms = terms_param terms'"
  then show "suggest eng config db terms limit min_score = suggest eng config db terms' limit min_score"
    by (simp add: suggest_def)
next
  assume "tables db tablename = Some rows"
    and "to_tsquery eng (get_language config) (terms_param terms) = Inl msg"
  then show "suggest eng config db terms limit min_score = (Inl (ProgrammingError msg), db)"
    by (simp add: suggest_def)
qed

theorem suggest_passes_terms_verbatim_witness:
  "(\<exists>pre post. terms_param [''fish'', ''cat & !dog''] = pre @ ''cat & !dog'' @ post)
   \<and> suggest demo_engine Map.empty demo_database [''cat | fish''] 10 0
       = (Inr [''cat fish'', ''cat dog'', ''cat''], demo_database)
   \<and> suggest demo_engine Map.empty demo_database [''(cat''] 10 0
       = (Inl (ProgrammingError ''syntax error in tsquery''), demo_database)"
proof -
  note thm1 = suggest_passes_terms_verbatim
    [where terms = "[''fish'', ''cat & !dog'']"]
  note thm2 = suggest_passes_terms_verbatim
    [where terms = "[''cat | fish'']" and terms' = "[''cat'', ''fish'']" and eng = demo_engine
       and config = Map.empty and db = demo_database and limit = 10 and min_score = "0::nat"]
  note thm3 = suggest_passes_terms_verbatim
    [where terms = "[''(cat'']" and eng = demo_engine and config = Map.empty and db = demo_database
       and rows = demo_rows and msg = "''syntax error in tsquery''" and limit = 10
       and min_score = "0::nat"]
  have "\<exists>pre post. terms_param [''fish'', ''cat & !dog''] = pre @ ''cat & !dog'' @ post"
    using thm1 [THEN conjunct1] by simp
  moreover have "terms_param [''cat | fish''] = terms_param [''cat'', ''fish'']"
    by (simp add: terms_param_def)
  with thm2 demo_suggest_cat_fish
  have "suggest demo_engine Map.empty demo_database [''cat | fish''] 10 0
       = (Inr [''cat fish'', ''cat dog'', ''cat''], demo_database)"
    by simp
  moreover have "to_tsquery demo_engine (get_language Map.empty) (terms_param [''(cat'']) = Inl ''syntax error in tsquery''"
    by (simp add: demo_engine_def terms_param_def)
  with thm3 demo_table
  have "suggest demo_engine Map.empty demo_database [''(cat''] 10 0
       = (Inl (ProgrammingError ''syntax error in tsquery''), demo_database)"
    by simp
  ultimately show ?thesis by simp
qed

subsection \<open>A negative limit\<close>

text \<open>
  A negative limit is not refused by \<^verbatim>\<open>suggest\<close>. With limit \<open>-1\<close> the statement is
  executed, and the error that comes back is the one \<^verbatim>\<open>_execute\<close> gets from the database,
  a \<^verbatim>\<open>DataError\<close>.
\<close>

theorem suggest_negative_limit_counterexample:
  "suggest demo_engine Map.empty demo_database [''cat''] (- 1) 0
     = (Inl (DataError ''LIMIT must not be negative''), demo_database)
   \<and> fst (execute demo_engine (Suggest_Select tablename ''english'' ''cat'' (- 1) 0) demo_database)
     = Inl (DataError ''LIMIT must not be negative'')"
  by (simp add: demo_defs)

text \<open>
  C7, as the code has it. \<^verbatim>\<open>suggest\<close> does not check its limit. With a negative limit it
  executes the statement like with any other; the call fails with the error of that
  execution, which is the \<^verbatim>\<open>DataError\<close> "LIMIT must not be negative" when the table
  exists and the joined text parses; and the database is left as it was.
\<close>

theorem suggest_negative_limit:
  assumes "limit < 0"
  shows "\<exists>e. suggest eng config db terms limit min_score = (Inl e, db)
     \<and> fst (execute eng (Suggest_Select tablename (get_language config) (terms_param terms)
                limit min_score) db) = Inl e
     \<and> (tables db tablename \<noteq> None \<longrightarrow>
          (\<exists>query. to_tsquery eng (get_language config) (terms_param terms) = Inr query) \<longrightarrow>
          e = DataError ''LIMIT must not be negative'')"
  using assms by (auto simp: suggest_def split: option.split sum.split)

theorem suggest_negative_limit_witness:
  "suggest demo_engine Map.empty demo_database [''cat'', ''fish''] (- 5) 0
     = (Inl (DataError ''LIMIT must not be negative''), demo_database)"
proof -
  have "(- 5 :: int) < 0" by simp
  from suggest_negative_limit [OF this, where eng = demo_engine and config = Map.empty
      and db = demo_database and terms = "[''cat'', ''fish'']" and min_score = "0::nat"]
  obtain e where e: "suggest demo_engine Map.empty demo_database [''cat'', ''fish''] (- 5) 0
       = (Inl e, demo_database)"
    and "tables demo_database tablename \<noteq> None \<longrightarrow>
          (\<exists>query. to_tsquery demo_engine (get_language Map.empty) (terms_param [''cat'', ''fish'']) = Inr query) \<longrightarrow>
          e = DataError ''LIMIT must not be negative''"
    by blast
  with demo_table demo_query_cat_fish have "e = DataError ''LIMIT must not be negative''"
    by simp
  with e show ?thesis by simp
qed

subsection \<open>Initialising the store\<close>

text \<open>
  C8. \<^verbatim>\<open>create_tables\<close> is idempotent. On every database and under every configuration,
  running it a second time gives the result and the database of the first run, and the
  table holds the rows it held before (none if it had to be created). When the server has
  the configured language, the run succeeds and the index
  \<^verbatim>\<open>discovery_searchquery_ts_index\<close> is on that table in this language, whatever
  language an index of that name had before; in every state of the store, that is, in
  every database that the operations of the module have made of an empty one, it is the
  only index there is. When the server does not have the language, both runs fail with
  its \<^verbatim>\<open>ProgrammingError\<close>, and the indexes are as they were.
\<close>

theorem create_tables_idempotent:
  "create_tables eng config (snd (create_tables eng config db)) = create_tables eng config db
    \<and> tables (snd (create_tables eng config db)) tablename
        = Some (case tables db tablename of None \<Rightarrow> [] | Some rows \<Rightarrow> rows)
    \<and> (known_language eng (get_language config) \<longrightarrow>
          fst (create_tables eng config db) = Inr ()
          \<and> indexes (snd (create_tables eng config db)) index_name
              = Some \<lparr>on_table = tablename, using_language = get_language config\<rparr>
          \<and> (reachable eng db \<longrightarrow>
                dom (indexes (snd (create_tables eng config db))) = {index_name}))
    \<and> (\<not> known_language eng (get_language config) \<longrightarrow>
          fst (create_tables eng config db)
            = Inl (ProgrammingError
                (''text search configuration '' @ get_language config @ '' does not exist''))
          \<and> indexes (snd (create_tables eng config db)) = indexes db)"
proof -
  let ?db1 = "snd (create_tables eng config db)"
  have tbl: "tables ?db1 tablename = Some (case tables db tablename of None \<Rightarrow> [] | Some rows \<Rightarrow> rows)"
    by (simp add: create_tables_result create_all_table)
  then have again: "create_all ?db1 = ?db1" by (rule create_all_idem)
  have twice: "create_tables eng config ?db1 = create_tables eng config db"
  proof (cases "known_language eng (get_language config)")
    case True
    then show ?thesis
      by (simp add: create_tables_result[of eng config ?db1] again)
         (simp add: create_tables_result)
  next
    case False
    then show ?thesis
      by (simp add: create_tables_result[of eng config ?db1] again)
         (simp add: create_tables_result)
  qed
  have only: "dom (indexes ?db1) = {index_name}"
    if "known_language eng (get_language config)" and "reachable eng db"
    using reachable_indexes[OF that(2)] that(1)
    by (auto simp: create_tables_result create_all_indexes)
  have ok: "fst (create_tables eng config db) = Inr ()
      \<and> indexes ?db1 index_name
           = Some \<lparr>on_table = tablename, using_language = get_language config\<rparr>"
    if "known_language eng (get_language config)"
    using that by (simp add: create_tables_result)
  have fails: "fst (create_tables eng config db)
           = Inl (ProgrammingError
                (''text search configuration '' @ get_language config @ '' does not exist''))
      \<and> indexes ?db1 = indexes db"
    if "\<not> known_language eng (get_language config)"
    using that by (simp add: create_tables_result create_all_indexes)
  from twice tbl only ok fails show ?thesis by blast
qed

text \<open>
  On the database with one logged query and an index in \<^verbatim>\<open>english\<close>: under the
  configuration that sets \<^verbatim>\<open>german\<close> the index is rebuilt in \<^verbatim>\<open>german\<close> and the row
  stays; under a configuration that sets a language the server does not have, the run
  fails and the index stays as it was.
\<close>

theorem create_tables_idempotent_witness:
  "create_tables demo_engine german_config (snd (create_tables demo_engine german_config logged_database))
     = create_tables demo_engine german_config logged_database
   \<and> fst (create_tables demo_engine german_config logged_database) = Inr ()
   \<and> tables (snd (create_tables demo_engine german_config logged_database)) tablename
       = Some [\<lparr>id' = 1, q = ''cat''\<rparr>]
   \<and> indexes logged_database index_name
       = Some \<lparr>on_table = tablename, using_language = ''english''\<rparr>
   \<and> indexes (snd (create_tables demo_engine german_config logged_database)) index_name
       = Some \<lparr>on_table = tablename, using_language = ''german''\<rparr>
   \<and> dom (indexes (snd (create_tables demo_engine german_config logged_database))) = {index_name}
   \<and> fst (create_tables demo_engine
            [''ckanext.discovery.search_suggestions.language'' \<mapsto> ''klingon''] logged_database)
       = Inl (ProgrammingError ''text search configuration klingon does not exist'')
   \<and> indexes (snd (create_tables demo_engine
            [''ckanext.discovery.search_suggestions.language'' \<mapsto> ''klingon''] logged_database))
       = indexes logged_database"
proof -
  let ?klingon = "[''ckanext.discovery.search_suggestions.language'' \<mapsto> ''klingon'']"
  have german: "get_language german_config = ''german''"
    and klingon: "get_language ?klingon = ''klingon''"
    by (simp_all add: german_config_def get_language_def get_config_def)
  have known: "known_language demo_engine (get_language german_config)"
    and unknown: "\<not> known_language demo_engine (get_language ?klingon)"
    by (simp_all add: german klingon demo_engine_def)
  have rows: "tables logged_database tablename = Some [\<lparr>id' = 1, q = ''cat''\<rparr>]"
    and old: "indexes logged_database index_name
       = Some \<lparr>on_table = tablename, using_language = ''english''\<rparr>"
    by (simp_all add: logged_database_eq)
  from create_tables_idempotent [of demo_engine german_config logged_database]
    known logged_database_reachable rows german
  have "create_tables demo_engine german_config (snd (create_tables demo_engine german_config logged_database))
     = create_tables demo_engine german_config logged_database
   \<and> fst (create_tables demo_engine german_config logged_database) = Inr ()
   \<and> tables (snd (create_tables demo_engine german_config logged_database)) tablename
       = Some [\<lparr>id' = 1, q = ''cat''\<rparr>]
   \<and> indexes (snd (create_tables demo_engine german_config logged_database)) index_name
       = Some \<lparr>on_table = tablename, using_language = ''german''\<rparr>
   \<and> dom (indexes (snd (create_tables demo_engine german_config logged_database))) = {index_name}"
    by simp
  moreover from create_tables_idempotent [of demo_engine ?klingon logged_database] unknown klingon
  have "fst (create_tables demo_engine ?klingon logged_database)
       = Inl (ProgrammingError ''text search configuration klingon does not exist'')
   \<and> indexes (snd (create_tables demo_engine ?klingon logged_database)) = indexes logged_database"
    by simp
  ultimately show ?thesis using old by simp
qed

subsection \<open>Logging a query\<close>

text \<open>
  The claim is made for every text. A text with a NUL character is refused by the driver:
  \<^verbatim>\<open>create\<close> raises, and the table is as before.
\<close>

theorem create_nul_counterexample:
  "create demo_database [CHR ''a'', CHR 0x00, CHR ''b'']
     = (Inl (ValueError ''A string literal cannot contain NUL (0x00) characters.''), demo_database)
   \<and> tables demo_database tablename = Some demo_rows"
  by (simp add: create_def demo_database_def)

text \<open>
  C9, as the code has it. \<^verbatim>\<open>create\<close> only appends, for a text without a NUL character
  and on a table whose keys all came from its sequence, as in every state of the store,
  while the sequence has keys left in the range of the integer column. It returns a row
  with the given text and a key no earlier row has, and the table afterwards is the table
  before followed by that row: nothing is changed and nothing is removed, and the indexes
  are untouched. Creating the same text again adds a second row, different from the first,
  and the occurrence count of the text has grown by two; this is the count the innermost
  subquery of \<^verbatim>\<open>suggest\<close> reports for the text when the text matches the query.
\<close>

theorem create_append_only:
  assumes "tables db tablename = Some rows"
    and "CHR 0x00 \<notin> set s"
    and "\<forall>r \<in> set rows. id' r \<le> id_seq db"
    and "id_seq db + 2 \<le> 2147483647"
  shows "\<exists>r1 r2 db1 db2.
      create db s = (Inr r1, db1) \<and> q r1 = s \<and> id' r1 \<notin> id' ` set rows
      \<and> tables db1 = (tables db)(tablename \<mapsto> rows @ [r1]) \<and> indexes db1 = indexes db
      \<and> create db1 s = (Inr r2, db2) \<and> q r2 = s \<and> r2 \<noteq> r1
      \<and> tables db2 = (tables db)(tablename \<mapsto> rows @ [r1, r2])
      \<and> count_of (rows @ [r1, r2]) s = count_of rows s + 2
      \<and> (text_matches eng language query s \<longrightarrow>
           (s, count_of rows s + 2) \<in> set (match_rows eng language query (rows @ [r1, r2])))"
proof -
  let ?r1 = "\<lparr>id' = id_seq db + 1, q = s\<rparr>"
  let ?db1 = "db\<lparr>tables := (tables db)(tablename \<mapsto> rows @ [?r1]), id_seq := id_seq db + 1\<rparr>"
  let ?r2 = "\<lparr>id' = id_seq ?db1 + 1, q = s\<rparr>"
  let ?db2 = "?db1\<lparr>tables := (tables ?db1)(tablename \<mapsto> (rows @ [?r1]) @ [?r2]),
                    id_seq := id_seq ?db1 + 1\<rparr>"
  have fresh1: "id_seq db + 1 \<notin> id' ` set rows"
    using assms(3) by fastforce
  have first: "create db s = (Inr ?r1, ?db1)"
    using assms(1,2) _ fresh1 by (rule create_result) (use assms(4) in simp)
  have tbl1: "tables ?db1 tablename = Some (rows @ [?r1])" by simp
  have fresh2: "id_seq ?db1 + 1 \<notin> id' ` set (rows @ [?r1])"
    using assms(3) by fastforce
  have second: "create ?db1 s = (Inr ?r2, ?db2)"
    using tbl1 assms(2) _ fresh2 by (rule create_result) (use assms(4) in simp)
  have distinct: "?r2 \<noteq> ?r1" by simp
  have count: "count_of (rows @ [?r1, ?r2]) s = count_of rows s + 2"
    by (simp add: count_of_def)
  have "(s, count_of rows s + 2) \<in> set (match_rows eng language query (rows @ [?r1, ?r2]))"
    if "text_matches eng language query s"
    using that count by (simp only: match_rows_iff) simp
  with first second fresh1 distinct count show ?thesis
    by (intro exI[of _ ?r1] exI[of _ ?r2] exI[of _ ?db1] exI[of _ ?db2]) simp
qed

theorem create_append_only_witness:
  "create demo_database ''cat'' = (Inr \<lparr>id' = 8, q = ''cat''\<rparr>,
      demo_database\<lparr>tables := (tables demo_database)(tablename \<mapsto> demo_rows @ [\<lparr>id' = 8, q = ''cat''\<rparr>]),
                    id_seq := 8\<rparr>)
   \<and> count_of demo_rows ''cat'' = 2
   \<and> count_of (demo_rows @ [\<lparr>id' = 8, q = ''cat''\<rparr>, \<lparr>id' = 9, q = ''cat''\<rparr>]) ''cat'' = 4"
proof -
  let ?r1 = "\<lparr>id' = 8, q = ''cat''\<rparr>"
  let ?r2 = "\<lparr>id' = 9, q = ''cat''\<rparr>"
  let ?db1 = "demo_database\<lparr>tables := (tables demo_database)(tablename \<mapsto> demo_rows @ [?r1]),
                id_seq := 8\<rparr>"
  have seq: "id_seq demo_database = 7" by (simp add: demo_database_def)
  have nul: "CHR 0x00 \<notin> set ''cat''" by simp
  have keys: "\<forall>r \<in> set demo_rows. id' r \<le> id_seq demo_database"
    by (simp add: demo_rows_def seq)
  have room: "id_seq demo_database + 2 \<le> 2147483647" by (simp add: seq)
  have first: "create demo_database ''cat'' = (Inr ?r1, ?db1)"
    by (simp add: create_def demo_table seq demo_rows_def)
  have second: "fst (create ?db1 ''cat'') = Inr ?r2"
    by (simp add: create_def demo_rows_def)
  have before: "count_of demo_rows ''cat'' = 2"
    by (simp add: count_of_def demo_rows_def)
  from create_append_only [OF demo_table nul keys room, of demo_engine "''english''" "[''cat'']"]
  obtain r1 r2 db1 db2 where "create demo_database ''cat'' = (Inr r1, db1)"
    and "create db1 ''cat'' = (Inr r2, db2)"
    and "count_of (demo_rows @ [r1, r2]) ''cat'' = count_of demo_rows ''cat'' + 2"
    by blast
  with first second before have "count_of (demo_rows @ [?r1, ?r2]) ''cat'' = 4"
    by simp
  with first before show ?thesis by simp
qed

subsection \<open>\<^verbatim>\<open>suggest\<close> only reads\<close>

text \<open>
  C10. \<^verbatim>\<open>suggest\<close> never changes the database: the state after the call is the state
  before it, rows included, whether the call returns a list or an error.
\<close>

theorem suggest_leaves_database:
  "snd (suggest eng config db terms limit min_score) = db
   \<and> tables (snd (suggest eng config db terms limit min_score)) = tables db"
proof -
  have "snd (suggest eng config db terms limit min_score) = db"
  proof (cases "execute eng (Suggest_Select tablename (get_language config) (terms_param terms)
                  limit min_score) db")
    case (Pair res db')
    have "db' = db"
      using Pair by (auto split: option.splits sum.splits if_splits)
    with Pair show ?thesis
      by (cases res) (simp_all add: suggest_def)
  qed
  then show ?thesis by simp
qed

theorem suggest_leaves_database_witness:
  "snd (suggest demo_engine Map.empty demo_database [''cat'', ''fish''] 10 0) = demo_database
   \<and> snd (suggest demo_engine Map.empty demo_database [''(cat''] (- 1) 0) = demo_database"
  using suggest_leaves_database [of demo_engine Map.empty demo_database "[''cat'', ''fish'']" 10 0]
    suggest_leaves_database [of demo_engine Map.empty demo_database "[''(cat'']" "- 1" 0]
  by simp

end
